theory Spec2Isabelle
  imports Main "HOL-Library.Word"
begin

unbundle bit_operations_syntax

section \<open>Enumerations of include/virtio.h\<close>

text \<open>
  A C enumeration is a list of enumerators, each with an optional explicit value. The
  language gives an enumerator without "= value" the value of its predecessor plus one,
  and the first enumerator the value 0.
\<close>

type_synonym enum_decl = "(string \<times> int option) list"

fun enum_assign :: "int \<Rightarrow> enum_decl \<Rightarrow> (string \<times> int) list" where
  "enum_assign nxt [] = []"
| "enum_assign nxt ((n, Some v) # ds) = (n, v) # enum_assign (v + 1) ds"
| "enum_assign nxt ((n, None) # ds) = (n, nxt) # enum_assign (nxt + 1) ds"

definition enum_values :: "enum_decl \<Rightarrow> (string \<times> int) list" where
  "enum_values ds = enum_assign 0 ds"

definition enum_value :: "enum_decl \<Rightarrow> string \<Rightarrow> int option" where
  "enum_value ds n = map_of (enum_values ds) n"

text \<open>enum L4_virtio_protocol\<close>

definition L4_virtio_protocol :: enum_decl where
  "L4_virtio_protocol = [(''L4VIRTIO_PROTOCOL'', Some 0)]"

text \<open>enum L4_virtio_opcodes: only the first enumerator carries an explicit value.\<close>

definition L4_virtio_opcodes :: enum_decl where
  "L4_virtio_opcodes =
    [(''L4VIRTIO_OP_SET_STATUS'', Some 0),
     (''L4VIRTIO_OP_CONFIG_QUEUE'', None),
     (''L4VIRTIO_OP_REGISTER_IFACE'', None),
     (''L4VIRTIO_OP_REGISTER_DS'', None)]"

text \<open>enum L4virtio_device_ids\<close>

definition L4virtio_device_ids :: enum_decl where
  "L4virtio_device_ids =
    [(''L4VIRTIO_ID_NET'', Some 1),
     (''L4VIRTIO_ID_BLOCK'', Some 2),
     (''L4VIRTIO_ID_CONSOLE'', Some 3),
     (''L4VIRTIO_ID_RNG'', Some 4),
     (''L4VIRTIO_ID_BALLOON'', Some 5),
     (''L4VIRTIO_ID_RPMSG'', Some 7),
     (''L4VIRTIO_ID_SCSI'', Some 8),
     (''L4VIRTIO_ID_9P'', Some 9),
     (''L4VIRTIO_ID_RPROC_SERIAL'', Some 11),
     (''L4VIRTIO_ID_CAIF'', Some 12),
     (''L4VIRTIO_ID_SOCK'', Some 0x9999)]"

text \<open>enum L4virtio_device_status\<close>

definition L4virtio_device_status :: enum_decl where
  "L4virtio_device_status =
    [(''L4VIRTIO_STATUS_ACKNOWLEDGE'', Some 1),
     (''L4VIRTIO_STATUS_DRIVER'', Some 2),
     (''L4VIRTIO_STATUS_DRIVER_OK'', Some 4),
     (''L4VIRTIO_STATUS_FEATURES_OK'', Some 8),
     (''L4VIRTIO_STATUS_FAILED'', Some 0x80)]"

section \<open>Structures of include/virtio.h\<close>

text \<open>
  The fixed-width scalar types the structures are declared with (l4_uint8_t, l4_uint16_t,
  l4_uint32_t, l4_uint64_t). Size and alignment of each is its width in bytes.
\<close>

datatype ctype = L4_uint8 | L4_uint16 | L4_uint32 | L4_uint64

fun ctype_size :: "ctype \<Rightarrow> nat" where
  "ctype_size L4_uint8 = 1"
| "ctype_size L4_uint16 = 2"
| "ctype_size L4_uint32 = 4"
| "ctype_size L4_uint64 = 8"

text \<open>
  A member declaration: name, element type, number of elements (1 for a scalar, the
  array length for an array member).
\<close>

type_synonym member = "string \<times> ctype \<times> nat"

definition member_size :: "member \<Rightarrow> nat" where
  "member_size m = (case m of (n, t, c) \<Rightarrow> c * ctype_size t)"

definition align_up :: "nat \<Rightarrow> nat \<Rightarrow> nat" where
  "align_up n a = ((n + a - 1) div a) * a"

text \<open>
  The C layout rule for a structure: members in declaration order, each placed at the
  next offset that is a multiple of its alignment; the structure's size is the end of the
  last member rounded up to the largest member alignment.
\<close>

fun member_offsets :: "nat \<Rightarrow> member list \<Rightarrow> (string \<times> nat) list" where
  "member_offsets off [] = []"
| "member_offsets off ((n, t, c) # ms) =
     (n, align_up off (ctype_size t))
       # member_offsets (align_up off (ctype_size t) + c * ctype_size t) ms"

fun members_end :: "nat \<Rightarrow> member list \<Rightarrow> nat" where
  "members_end off [] = off"
| "members_end off ((n, t, c) # ms) =
     members_end (align_up off (ctype_size t) + c * ctype_size t) ms"

fun struct_align :: "member list \<Rightarrow> nat" where
  "struct_align [] = 1"
| "struct_align ((n, t, c) # ms) = max (ctype_size t) (struct_align ms)"

definition struct_layout :: "member list \<Rightarrow> (string \<times> nat) list" where
  "struct_layout ms = member_offsets 0 ms"

definition struct_sizeof :: "member list \<Rightarrow> nat" where
  "struct_sizeof ms = align_up (members_end 0 ms) (struct_align ms)"

definition offsetof :: "member list \<Rightarrow> string \<Rightarrow> nat option" where
  "offsetof ms n = map_of (struct_layout ms) n"

text \<open>struct l4virtio_config_hdr_t, member by member as declared.\<close>

definition l4virtio_config_hdr_members :: "member list" where
  "l4virtio_config_hdr_members =
    [(''magic'', L4_uint32, 1),
     (''version'', L4_uint32, 1),
     (''device'', L4_uint32, 1),
     (''vendor'', L4_uint32, 1),
     (''num_queues'', L4_uint32, 1),
     (''queues_offset'', L4_uint32, 1),
     (''dev_cfg_offset'', L4_uint32, 1),
     (''generation'', L4_uint32, 1),
     (''status'', L4_uint32, 1),
     (''irq_status'', L4_uint32, 1),
     (''host_features'', L4_uint32, 8),
     (''guest_features'', L4_uint32, 8),
     (''guest_page_size'', L4_uint32, 1)]"

text \<open>struct l4virtio_config_queue_t\<close>

definition l4virtio_config_queue_members :: "member list" where
  "l4virtio_config_queue_members =
    [(''num_max'', L4_uint16, 1),
     (''num'', L4_uint16, 1),
     (''align'', L4_uint32, 1),
     (''pfn'', L4_uint32, 1)]"

text \<open>The same structures as values: what a reader of the shared memory sees.\<close>

record l4virtio_config_hdr_t =
  magic :: "32 word"
  version :: "32 word"
  device :: "32 word"
  vendor :: "32 word"
  num_queues :: "32 word"
  queues_offset :: "32 word"
  dev_cfg_offset :: "32 word"
  generation :: "32 word"
  status :: "32 word"
  irq_status :: "32 word"
  host_features :: "32 word list"
  guest_features :: "32 word list"
  guest_page_size :: "32 word"

record l4virtio_config_queue_t =
  num_max :: "16 word"
  num :: "16 word"
  align :: "32 word"
  pfn :: "32 word"

section \<open>Accessors of include/virtio.h\<close>

text \<open>
  l4virtio_config_queues and l4virtio_device_config take the pointer to the config header
  and return a pointer. The pointer argument is the address \<open>cfg_addr\<close> together with
  the header \<open>cfg\<close> stored there; l4_addr_t is an unsigned machine word whose width
  (that of unsigned long) is the type parameter. The 32-bit offset is converted
  to l4_addr_t and added; unsigned addition wraps.
\<close>

definition l4virtio_config_queues :: "'a::len word \<Rightarrow> l4virtio_config_hdr_t \<Rightarrow> 'a word" where
  "l4virtio_config_queues cfg_addr cfg = cfg_addr + ucast (queues_offset cfg)"

definition l4virtio_device_config :: "'a::len word \<Rightarrow> l4virtio_config_hdr_t \<Rightarrow> 'a word" where
  "l4virtio_device_config cfg_addr cfg = cfg_addr + ucast (dev_cfg_offset cfg)"

text \<open>
  An object of \<open>sz\<close> bytes at address \<open>p\<close> lies inside the config region of
  \<open>region_size\<close> bytes that starts at \<open>cfg_addr\<close>.
\<close>

definition inside_region :: "'a::len word \<Rightarrow> nat \<Rightarrow> 'a word \<Rightarrow> nat \<Rightarrow> bool" where
  "inside_region cfg_addr region_size p sz =
     (unat cfg_addr \<le> unat p \<and> unat p + sz \<le> unat cfg_addr + region_size)"

text \<open>A header whose queues_offset and dev_cfg_offset point behind a 4096-byte region.\<close>

definition far_offsets_hdr :: l4virtio_config_hdr_t where
  "far_offsets_hdr =
    \<lparr> magic = 0x74726976, version = 2, device = 2, vendor = 0, num_queues = 1,
      queues_offset = 0x2000, dev_cfg_offset = 0x3000, generation = 0, status = 0,
      irq_status = 0, host_features = replicate 8 0, guest_features = replicate 8 0,
      guest_page_size = 4096 \<rparr>"

text \<open>
  A header of the same region whose queue array starts right behind the 108-byte header
  and whose device config follows one 12-byte queue entry.
\<close>

definition near_offsets_hdr :: l4virtio_config_hdr_t where
  "near_offsets_hdr = far_offsets_hdr\<lparr>queues_offset := 108, dev_cfg_offset := 120\<rparr>"

section \<open>Control-plane calls\<close>

text \<open>
  include/virtio.h declares l4virtio_set_status, l4virtio_config_queue and
  l4virtio_register_ds and documents their results; the device backend that serves them
  is not part of the header. The definitions of this section give the backend the
  behaviour the specification describes.
\<close>



definition L4VIRTIO_STATUS_DRIVER_OK :: "32 word" where
  "L4VIRTIO_STATUS_DRIVER_OK = 4"

definition L4VIRTIO_STATUS_FEATURES_OK :: "32 word" where
  "L4VIRTIO_STATUS_FEATURES_OK = 8"

definition L4VIRTIO_STATUS_FAILED :: "32 word" where
  "L4VIRTIO_STATUS_FAILED = 0x80"

text \<open>\<open>has_bits s b\<close>: every bit of \<open>b\<close> is set in \<open>s\<close>.\<close>

definition has_bits :: "'a::len word \<Rightarrow> 'a word \<Rightarrow> bool" where
  "has_bits s b = (s AND b = b)"

text \<open>\<open>any_bit s b\<close>: the C test \<open>s & b\<close>, some bit of \<open>b\<close> is set in \<open>s\<close>.\<close>

definition any_bit :: "'a::len word \<Rightarrow> 'a word \<Rightarrow> bool" where
  "any_bit s b = (s AND b \<noteq> 0)"

text \<open>
  The error results that the documentation of l4virtio_config_queue names: -L4_EIO,
  -L4_ERANGE and -L4_EINVAL. The header gives the three constants by name only.
\<close>

datatype l4_error = L4_EIO | L4_ERANGE | L4_EINVAL

text \<open>
  Modelled from the spec: a region of section 4.5, for which src/ has no structure: a
  window of guest-physical memory registered with the device, with the data space it comes
  from, its guest-physical base and size, and the rights the device has on it.
\<close>

record region =
  rg_ds :: nat
  rg_base :: nat
  rg_size :: nat
  rg_rights :: "8 word"

text \<open>
  Modelled from the spec: the state of the device backend, which is not in src/. It is
  the config header and the queue config array in the shared config region (the array is
  read at any index, as memory is), the regions registered so far, and the queues that
  currently have a backend-side mapping.
\<close>

record device =
  dev_cfg :: l4virtio_config_hdr_t
  dev_queues :: "nat \<Rightarrow> l4virtio_config_queue_t"
  dev_regions :: "region list"
  dev_active :: "nat list"

definition dev_status :: "device \<Rightarrow> 32 word" where
  "dev_status d = status (dev_cfg d)"

text \<open>
  Modelled from the spec: what the specification leaves to the implementer or to the ring
  format (sections 4.2, 4.3, 4.5 and 9), as parameters of the backend:
  the policy for DRIVER_OK before FEATURES_OK (reject with an error, or silently ignore),
  the size in bytes of the ring layout for a descriptor count and an alignment, which
  queue entries count as otherwise malformed, and the rights without which a region
  registration is refused as insufficient.
\<close>

datatype early_driver_ok = Reject_early_driver_ok | Ignore_early_driver_ok

record backend =
  on_early_driver_ok :: early_driver_ok
  ring_layout_size :: "nat \<Rightarrow> nat \<Rightarrow> nat"
  malformed_entry :: "l4virtio_config_queue_t \<Rightarrow> bool"
  needed_rights :: "8 word"

subsection \<open>set_status\<close>

text \<open>
  Modelled from the spec: the backend side of l4virtio_set_status, which src/ only
  declares. The hard reset, section 4.2: abort queue processing, release the backend-side
  queue mappings, return to the state where no configuration is assumed.
\<close>

definition reset_device :: "device \<Rightarrow> device" where
  "reset_device d = d\<lparr>dev_cfg := (dev_cfg d)\<lparr>status := 0\<rparr>, dev_regions := [], dev_active := []\<rparr>"


text \<open>
  Modelled from the spec: the attempt of section 4.2 to set DRIVER_OK before FEATURES_OK:
  the write brings DRIVER_OK, which is not set yet, and does not carry FEATURES_OK.
\<close>

definition early_driver_ok_write :: "32 word \<Rightarrow> 32 word \<Rightarrow> bool" where
  "early_driver_ok_write cur new =
     (any_bit new L4VIRTIO_STATUS_DRIVER_OK \<and> \<not> any_bit cur L4VIRTIO_STATUS_DRIVER_OK
      \<and> \<not> any_bit new L4VIRTIO_STATUS_FEATURES_OK)"

text \<open>
  Modelled from the spec: the backend side of l4virtio_set_status, which src/ only
  declares (section 4.2). A write of exactly 0 is the hard reset, from every state. Any
  other write may only add bits to the current value, else it is rejected with an error.
  An early DRIVER_OK is rejected with an error or silently ignored, by the backend's
  policy; ignored means that the DRIVER_OK bit is not taken and the rest of the write is.
  \<open>None\<close> is a negative return value, \<open>Some d'\<close> is the return value 0 with the
  device then in state \<open>d'\<close>.
\<close>

definition set_status :: "backend \<Rightarrow> device \<Rightarrow> 32 word \<Rightarrow> device option" where
  "set_status be d new =
     (if new = 0 then Some (reset_device d)
      else if \<not> has_bits new (dev_status d) then None
      else if early_driver_ok_write (dev_status d) new
      then (case on_early_driver_ok be of
              Reject_early_driver_ok \<Rightarrow> None
            | Ignore_early_driver_ok \<Rightarrow>
                Some (d\<lparr>dev_cfg := (dev_cfg d)
                         \<lparr>status := new AND NOT L4VIRTIO_STATUS_DRIVER_OK\<rparr>\<rparr>))
      else Some (d\<lparr>dev_cfg := (dev_cfg d)\<lparr>status := new\<rparr>\<rparr>))"

text \<open>The device after a call: a rejected call leaves it as it was.\<close>

definition write_status :: "backend \<Rightarrow> device \<Rightarrow> 32 word \<Rightarrow> device" where
  "write_status be d new = (case set_status be d new of None \<Rightarrow> d | Some d' \<Rightarrow> d')"




subsection \<open>config_queue\<close>

text \<open>
  The ring memory of a queue entry: it starts at pfn * guest_page_size and has the size
  of the ring layout for the entry's num and align.
\<close>

definition queue_start :: "device \<Rightarrow> l4virtio_config_queue_t \<Rightarrow> nat" where
  "queue_start d q = unat (pfn q) * unat (guest_page_size (dev_cfg d))"

definition queue_bytes :: "backend \<Rightarrow> l4virtio_config_queue_t \<Rightarrow> nat" where
  "queue_bytes be q = ring_layout_size be (unat (num q)) (unat (align q))"

definition within_region :: "nat \<Rightarrow> nat \<Rightarrow> region \<Rightarrow> bool" where
  "within_region start sz r = (rg_base r \<le> start \<and> start + sz \<le> rg_base r + rg_size r)"

definition queue_in_registered :: "backend \<Rightarrow> device \<Rightarrow> l4virtio_config_queue_t \<Rightarrow> bool" where
  "queue_in_registered be d q =
     list_ex (within_region (queue_start d q) (queue_bytes be q)) (dev_regions d)"

text \<open>
  Modelled from the spec: the backend side of l4virtio_config_queue, which src/ only
  declares (section 4.3; the three results are those of the function's documentation).
  An index that is not below num_queues is out of range. Then the device reads the entry
  the driver wrote: num above num_max, or ring memory that exceeds the registered region,
  is an I/O-configuration error. Anything else that is wrong is an invalid argument
  (the documentation's "otherwise"): an otherwise malformed entry, and a device in the
  FAILED state, where no queue operation is valid until a full reset (section 7).
  On success the queue has a backend-side mapping.
\<close>

definition config_queue :: "backend \<Rightarrow> device \<Rightarrow> nat \<Rightarrow> l4_error + device" where
  "config_queue be d index =
     (if unat (num_queues (dev_cfg d)) \<le> index then Inl L4_ERANGE
      else let q = dev_queues d index in
        if num_max q < num q \<or> \<not> queue_in_registered be d q then Inl L4_EIO
        else if malformed_entry be q \<or> has_bits (dev_status d) L4VIRTIO_STATUS_FAILED
        then Inl L4_EINVAL
        else Inr (d\<lparr>dev_active := index # removeAll index (dev_active d)\<rparr>))"

subsection \<open>register_ds\<close>

text \<open>
  The data-space capability argument (l4_cap_idx_t, an unsigned machine word): the lower
  8 bits are the rights mask, the bits above select the capability.
\<close>

definition rights_mask :: "'a::len word \<Rightarrow> 8 word" where
  "rights_mask ds_cap = ucast (ds_cap AND 0xFF)"

definition cap_selector :: "'a::len word \<Rightarrow> nat" where
  "cap_selector ds_cap = unat (drop_bit 8 ds_cap)"

text \<open>
  Modelled from the spec: the rights the device gets on a region, section 4.5 and the
  documentation of the ds_cap parameter: the caller's rights, masked.
\<close>

definition granted_rights :: "8 word \<Rightarrow> 'a::len word \<Rightarrow> 8 word" where
  "granted_rights held ds_cap = held AND rights_mask ds_cap"

definition ranges_overlap :: "nat \<Rightarrow> nat \<Rightarrow> region \<Rightarrow> bool" where
  "ranges_overlap base sz r = (base < rg_base r + rg_size r \<and> rg_base r < base + sz)"

text \<open>
  Modelled from the spec: the backend side of l4virtio_register_ds, which src/ only
  declares (section 4.5). \<open>caps\<close> is the caller's capability table: for each selector
  the rights the caller holds on the data space and the size of the data space. The call
  fails on an unknown region reference, on insufficient rights, and on an invalid or
  overlapping address range (base is a 64-bit guest-physical address); on success the
  window is registered with the masked rights.
\<close>

definition register_ds ::
  "backend \<Rightarrow> (nat \<rightharpoonup> 8 word \<times> nat) \<Rightarrow> device \<Rightarrow> 'a::len word \<Rightarrow> nat \<Rightarrow> nat \<Rightarrow> nat
     \<Rightarrow> device option" where
  "register_ds be caps d ds_cap base offset sz =
     (case caps (cap_selector ds_cap) of
        None \<Rightarrow> None
      | Some (held, ds_size) \<Rightarrow>
          if \<not> has_bits (granted_rights held ds_cap) (needed_rights be) then None
          else if sz = 0 \<or> ds_size < offset + sz \<or> 2 ^ 64 < base + sz
                  \<or> list_ex (ranges_overlap base sz) (dev_regions d) then None
          else Some (d\<lparr>dev_regions := dev_regions d @
                 [\<lparr>rg_ds = cap_selector ds_cap, rg_base = base, rg_size = sz,
                   rg_rights = granted_rights held ds_cap\<rparr>]\<rparr>))"

text \<open>Any sequence of control-plane calls; a failed call leaves the device as it was.\<close>

datatype 'cap ctl_call =
    Set_status "32 word"
  | Config_queue nat
  | Register_ds 'cap nat nat nat

fun do_call ::
  "backend \<Rightarrow> (nat \<rightharpoonup> 8 word \<times> nat) \<Rightarrow> device \<Rightarrow> 'a::len word ctl_call \<Rightarrow> device" where
  "do_call be caps d (Set_status w) = write_status be d w"
| "do_call be caps d (Config_queue i) =
     (case config_queue be d i of Inl e \<Rightarrow> d | Inr d' \<Rightarrow> d')"
| "do_call be caps d (Register_ds ds_cap base offset sz) =
     (case register_ds be caps d ds_cap base offset sz of None \<Rightarrow> d | Some d' \<Rightarrow> d')"

definition ctl_calls ::
  "backend \<Rightarrow> (nat \<rightharpoonup> 8 word \<times> nat) \<Rightarrow> device \<Rightarrow> 'a::len word ctl_call list \<Rightarrow> device" where
  "ctl_calls be caps d cs = foldl (do_call be caps) d cs"

text \<open>
  Every registered region carries no right beyond those the caller holds on its data
  space.
\<close>

definition region_within_caller :: "(nat \<rightharpoonup> 8 word \<times> nat) \<Rightarrow> region \<Rightarrow> bool" where
  "region_within_caller caps r =
     (case caps (rg_ds r) of None \<Rightarrow> False | Some (held, ds_size) \<Rightarrow> has_bits held (rg_rights r))"

definition rights_within_caller :: "(nat \<rightharpoonup> 8 word \<times> nat) \<Rightarrow> device \<Rightarrow> bool" where
  "rights_within_caller caps d = list_all (region_within_caller caps) (dev_regions d)"

text \<open>
  Modelled from the spec: what the registration is for (section 4.5). The device may
  access \<open>len\<close> bytes of guest-physical memory at \<open>addr\<close> with the rights
  \<open>want\<close> only through a registered region that covers them and carries these rights.
\<close>

definition grants_access :: "nat \<Rightarrow> nat \<Rightarrow> 8 word \<Rightarrow> region \<Rightarrow> bool" where
  "grants_access addr len want r = (within_region addr len r \<and> has_bits (rg_rights r) want)"

definition device_may_access :: "device \<Rightarrow> nat \<Rightarrow> nat \<Rightarrow> 8 word \<Rightarrow> bool" where
  "device_may_access d addr len want = list_ex (grants_access addr len want) (dev_regions d)"

subsection \<open>A concrete device\<close>

text \<open>
  A backend for the split-ring format (16-byte descriptors, an available ring of 3 + num
  16-bit words, a used ring of three 16-bit words and num 8-byte elements) that rejects
  DRIVER_OK before FEATURES_OK, takes an align that is not a power of two as malformed
  and needs the lowest rights bit on every region.
\<close>

definition split_ring_size :: "nat \<Rightarrow> nat \<Rightarrow> nat" where
  "split_ring_size n a = align_up (16 * n + 2 * (3 + n)) a + 6 + 8 * n"

definition align_not_pow2 :: "l4virtio_config_queue_t \<Rightarrow> bool" where
  "align_not_pow2 q = (align q = 0 \<or> align q AND (align q - 1) \<noteq> 0)"

definition demo_backend :: backend where
  "demo_backend =
    \<lparr>on_early_driver_ok = Reject_early_driver_ok, ring_layout_size = split_ring_size,
     malformed_entry = align_not_pow2, needed_rights = 1\<rparr>"

text \<open>
  A device with one queue of at most 256 descriptors; the driver asks for 128 descriptors,
  a used ring aligned to 4096 and the ring memory at page 0x100 of 4096-byte pages. One
  region of 64 KiB is registered at 0x100000.
\<close>

definition demo_entry :: l4virtio_config_queue_t where
  "demo_entry = \<lparr>num_max = 256, num = 128, align = 4096, pfn = 0x100\<rparr>"

definition demo_device :: device where
  "demo_device =
    \<lparr>dev_cfg = near_offsets_hdr,
     dev_queues = (\<lambda>i. demo_entry),
     dev_regions = [\<lparr>rg_ds = 1, rg_base = 0x100000, rg_size = 0x10000, rg_rights = 3\<rparr>],
     dev_active = []\<rparr>"


text \<open>
  The caller holds the two lowest rights bits on data space 1 and only the lowest one on
  data space 2.
\<close>

definition demo_caps :: "nat \<rightharpoonup> 8 word \<times> nat" where
  "demo_caps = [1 \<mapsto> (3, 0x100000), 2 \<mapsto> (1, 0x1000)]"

text \<open>
  The concrete device after the caller has registered a 4096-byte window of data space 1 at
  0x200000 with the rights mask 1.
\<close>

definition granted_device :: device where
  "granted_device = demo_device\<lparr>dev_regions := dev_regions demo_device @
     [\<lparr>rg_ds = 1, rg_base = 0x200000, rg_size = 0x1000, rg_rights = 1\<rparr>]\<rparr>"

text \<open>
  The concrete device after the caller has registered a window of data space 2 at 0x300000
  with all eight mask bits set, after a window of data space 1 with the mask 2, and after
  a window of data space 1 with the mask 0.
\<close>

definition full_mask_device :: device where
  "full_mask_device = demo_device\<lparr>dev_regions := dev_regions demo_device @
     [\<lparr>rg_ds = 2, rg_base = 0x300000, rg_size = 0x1000, rg_rights = 1\<rparr>]\<rparr>"

definition mask2_device :: device where
  "mask2_device = demo_device\<lparr>dev_regions := dev_regions demo_device @
     [\<lparr>rg_ds = 1, rg_base = 0x200000, rg_size = 0x1000, rg_rights = 2\<rparr>]\<rparr>"

text \<open>A backend like the first one that needs no particular right on a region.\<close>

definition lenient_backend :: backend where
  "lenient_backend = demo_backend\<lparr>needed_rights := 0\<rparr>"


definition zero_mask_device :: device where
  "zero_mask_device = demo_device\<lparr>dev_regions := dev_regions demo_device @
     [\<lparr>rg_ds = 1, rg_base = 0x200000, rg_size = 0x1000, rg_rights = 0\<rparr>]\<rparr>"

section \<open>Virtqueue ring engine\<close>

text \<open>
  The header declares no ring structure and no ring operation; the queue memory it
  configures holds the rings of specification sections 3 and 4.6. The definitions of this
  section follow the specification. Index counters and sizes are natural numbers.
\<close>

subsection \<open>Descriptor chains\<close>

text \<open>
  Modelled from the spec: the descriptor of section 3, absent from src/: guest-physical
  address, length, the flag bits chained, write-access and indirect-table, and the index
  of the next descriptor in the chain.
\<close>

record descriptor =
  d_addr :: nat
  d_len :: nat
  d_chained :: bool
  d_write :: bool
  d_indirect :: bool
  d_next :: nat

text \<open>
  Modelled from the spec: one buffer of a request as the producer hands it over, that is
  a descriptor without its linkage.
\<close>

record buffer =
  b_addr :: nat
  b_len :: nat
  b_write :: bool
  b_indirect :: bool

definition mk_desc :: "buffer \<Rightarrow> bool \<Rightarrow> nat \<Rightarrow> descriptor" where
  "mk_desc b chained nxt =
     \<lparr>d_addr = b_addr b, d_len = b_len b, d_chained = chained, d_write = b_write b,
      d_indirect = b_indirect b, d_next = nxt\<rparr>"

definition desc_buffer :: "descriptor \<Rightarrow> buffer" where
  "desc_buffer d =
     \<lparr>b_addr = d_addr d, b_len = d_len d, b_write = d_write d, b_indirect = d_indirect d\<rparr>"

text \<open>
  Modelled from the spec: the producer's chain building of section 4.6, absent from src/.
  Each buffer goes into its table slot; every descriptor but the last carries the chained
  flag and the slot of its successor, the last one ends the chain.
\<close>

fun link_chain :: "(nat \<times> buffer) list \<Rightarrow> descriptor list" where
  "link_chain [] = []"
| "link_chain [(s, b)] = [mk_desc b False 0]"
| "link_chain ((s, b) # (s', b') # rest) = mk_desc b True s' # link_chain ((s', b') # rest)"

definition store_desc :: "nat \<times> descriptor \<Rightarrow> descriptor list \<Rightarrow> descriptor list" where
  "store_desc sd tbl = tbl[fst sd := snd sd]"

definition write_chain :: "descriptor list \<Rightarrow> nat list \<Rightarrow> buffer list \<Rightarrow> descriptor list" where
  "write_chain tbl slots bufs = fold store_desc (zip slots (link_chain (zip slots bufs))) tbl"

text \<open>
  Modelled from the spec: the consumer's chain walk of section 4.6, absent from src/:
  "walk the descriptor chain (reject chains with cycles, out-of-range indices, or zero
  total length)". \<open>follow_chain\<close> follows the next indices from the head while the chained
  flag is set. A chain without a cycle visits each of the table's entries at most once, so
  a walk that is still chained after as many descriptors as the table has entries is in a
  cycle. \<open>walk_chain\<close> is the consumer's walk: it also rejects a chain whose lengths
  add up to zero.
\<close>

datatype chain_error = Chain_cycle | Chain_out_of_range | Chain_zero_length

fun follow_chain :: "descriptor list \<Rightarrow> nat \<Rightarrow> nat \<Rightarrow> chain_error + descriptor list" where
  "follow_chain tbl 0 i = Inl Chain_cycle"
| "follow_chain tbl (Suc k) i =
     (if length tbl \<le> i then Inl Chain_out_of_range
      else if d_chained (tbl ! i)
        then (case follow_chain tbl k (d_next (tbl ! i)) of
                Inl e \<Rightarrow> Inl e
              | Inr ds \<Rightarrow> Inr (tbl ! i # ds))
        else Inr [tbl ! i])"

definition walk_chain :: "descriptor list \<Rightarrow> nat \<Rightarrow> chain_error + descriptor list" where
  "walk_chain tbl head =
     (case follow_chain tbl (length tbl) head of
        Inl e \<Rightarrow> Inl e
      | Inr ds \<Rightarrow> if sum_list (map d_len ds) = 0 then Inl Chain_zero_length else Inr ds)"

text \<open>
  An unused table entry, a request of a 16-byte header that the device reads and a 512-byte
  buffer that it writes, and a buffer of length zero.
\<close>

definition null_desc :: descriptor where
  "null_desc = \<lparr>d_addr = 0, d_len = 0, d_chained = False, d_write = False,
                 d_indirect = False, d_next = 0\<rparr>"

definition request_hdr :: buffer where
  "request_hdr = \<lparr>b_addr = 0x1000, b_len = 16, b_write = False, b_indirect = False\<rparr>"

definition request_data :: buffer where
  "request_data = \<lparr>b_addr = 0x2000, b_len = 512, b_write = True, b_indirect = False\<rparr>"

definition zero_len_buffer :: buffer where
  "zero_len_buffer = \<lparr>b_addr = 0x1000, b_len = 0, b_write = False, b_indirect = False\<rparr>"

subsection \<open>Available and used ring\<close>


















subsection \<open>The device as consumer\<close>


section \<open>Constants\<close>

text \<open>
  C6. The enumerators of L4virtio_device_status have exactly the values ACKNOWLEDGE = 1,
  DRIVER = 2, DRIVER_OK = 4, FEATURES_OK = 8 and FAILED = 0x80; DRIVER_OK is numerically
  below FEATURES_OK.
\<close>

theorem device_status_values:
  "enum_values L4virtio_device_status =
     [(''L4VIRTIO_STATUS_ACKNOWLEDGE'', 1), (''L4VIRTIO_STATUS_DRIVER'', 2),
      (''L4VIRTIO_STATUS_DRIVER_OK'', 4), (''L4VIRTIO_STATUS_FEATURES_OK'', 8),
      (''L4VIRTIO_STATUS_FAILED'', 0x80)]
   \<and> enum_value L4virtio_device_status ''L4VIRTIO_STATUS_DRIVER_OK'' = Some 4
   \<and> enum_value L4virtio_device_status ''L4VIRTIO_STATUS_FEATURES_OK'' = Some 8
   \<and> (4::int) < 8"
  by (simp add: enum_values_def enum_value_def L4virtio_device_status_def)

text \<open>
  C7. The enumerators of L4virtio_device_ids have exactly the values network = 1, block = 2,
  console = 3, entropy source = 4, memory balloon = 5, rpmsg = 7, SCSI = 8, 9P = 9,
  rproc serial = 11, CAIF = 12 and socket = 0x9999; no enumerator has the value 6 or 10.
\<close>

theorem device_ids_values:
  "enum_values L4virtio_device_ids =
     [(''L4VIRTIO_ID_NET'', 1), (''L4VIRTIO_ID_BLOCK'', 2), (''L4VIRTIO_ID_CONSOLE'', 3),
      (''L4VIRTIO_ID_RNG'', 4), (''L4VIRTIO_ID_BALLOON'', 5), (''L4VIRTIO_ID_RPMSG'', 7),
      (''L4VIRTIO_ID_SCSI'', 8), (''L4VIRTIO_ID_9P'', 9), (''L4VIRTIO_ID_RPROC_SERIAL'', 11),
      (''L4VIRTIO_ID_CAIF'', 12), (''L4VIRTIO_ID_SOCK'', 0x9999)]
   \<and> 6 \<notin> set (map snd (enum_values L4virtio_device_ids))
   \<and> 10 \<notin> set (map snd (enum_values L4virtio_device_ids))"
  by (simp add: enum_values_def L4virtio_device_ids_def)

text \<open>
  C10. The opcodes are consecutive from zero: set status = 0, configure queue = 1, register
  interface = 2, register data space = 3; the protocol number L4VIRTIO_PROTOCOL is 0.
\<close>

theorem opcode_values:
  "enum_values L4_virtio_opcodes =
     [(''L4VIRTIO_OP_SET_STATUS'', 0), (''L4VIRTIO_OP_CONFIG_QUEUE'', 1),
      (''L4VIRTIO_OP_REGISTER_IFACE'', 2), (''L4VIRTIO_OP_REGISTER_DS'', 3)]
   \<and> map snd (enum_values L4_virtio_opcodes) = map int [0 ..< 4]
   \<and> enum_values L4_virtio_protocol = [(''L4VIRTIO_PROTOCOL'', 0)]"
  by (simp add: enum_values_def L4_virtio_opcodes_def L4_virtio_protocol_def upt_rec)

section \<open>Shared-memory layout\<close>

text \<open>
  C2. The config header is magic, version, device, vendor, num_queues, queues_offset,
  dev_cfg_offset, generation, status, irq_status (4 bytes each), host_features and
  guest_features (8 words of 4 bytes each) and guest_page_size (4 bytes), in this order
  without padding: status is at byte offset 32, guest_page_size at 104, and the header
  occupies 108 bytes. A queue config entry is num_max (2 bytes at offset 0), num (2 bytes
  at 2), align (4 bytes at 4) and pfn (4 bytes at 8), and occupies 12 bytes.
\<close>

theorem config_layout:
  "struct_layout l4virtio_config_hdr_members =
     [(''magic'', 0), (''version'', 4), (''device'', 8), (''vendor'', 12),
      (''num_queues'', 16), (''queues_offset'', 20), (''dev_cfg_offset'', 24),
      (''generation'', 28), (''status'', 32), (''irq_status'', 36),
      (''host_features'', 40), (''guest_features'', 72), (''guest_page_size'', 104)]
   \<and> map member_size l4virtio_config_hdr_members = [4, 4, 4, 4, 4, 4, 4, 4, 4, 4, 32, 32, 4]
   \<and> offsetof l4virtio_config_hdr_members ''status'' = Some 32
   \<and> offsetof l4virtio_config_hdr_members ''guest_page_size'' = Some 104
   \<and> struct_sizeof l4virtio_config_hdr_members = 108
   \<and> struct_layout l4virtio_config_queue_members =
       [(''num_max'', 0), (''num'', 2), (''align'', 4), (''pfn'', 8)]
   \<and> map member_size l4virtio_config_queue_members = [2, 2, 4, 4]
   \<and> struct_sizeof l4virtio_config_queue_members = 12"
  by (simp add: struct_layout_def struct_sizeof_def offsetof_def member_size_def align_up_def
      l4virtio_config_hdr_members_def l4virtio_config_queue_members_def)

section \<open>Config-structure accessors\<close>

lemma unat_ucast32:
  assumes "32 \<le> LENGTH('a::len)"
  shows "unat (ucast (w :: 32 word) :: 'a word) = unat w"
proof -
  have "is_up (ucast :: 32 word \<Rightarrow> 'a word)" using assms by (simp add: is_up)
  then have "uint (ucast w :: 'a word) = uint w" by (rule uint_up_ucast)
  then show ?thesis by (simp only: unat_eq_nat_uint)
qed

lemma ptr_add_inside:
  fixes base :: "'a::len word" and off :: "32 word"
  assumes len: "32 \<le> LENGTH('a)"
    and nowrap: "unat base + region_size \<le> 2 ^ LENGTH('a)"
    and fits: "unat off + sz \<le> region_size" and pos: "0 < sz"
  shows "inside_region base region_size (base + ucast off) sz"
proof -
  have u: "unat (ucast off :: 'a word) = unat off" using len by (rule unat_ucast32)
  have "unat base + unat (ucast off :: 'a word) < 2 ^ LENGTH('a)"
    using nowrap fits pos u by simp
  then have "unat (base + ucast off) = unat base + unat off"
    using u by (simp add: unat_add_lem [THEN iffD1])
  then show ?thesis using fits by (simp add: inside_region_def)
qed

lemma inside_needs_bound:
  fixes base :: "'a::len word" and off :: "32 word"
  assumes len: "32 \<le> LENGTH('a)"
    and inside: "inside_region base region_size (base + ucast off) sz"
  shows "unat off + sz \<le> region_size"
proof -
  have u: "unat (ucast off :: 'a word) = unat off" using len by (rule unat_ucast32)
  have lt: "unat off < 2 ^ LENGTH('a)"
    using unsigned_less [of "ucast off :: 'a word", where 'a = nat] u by simp
  show ?thesis
  proof (cases "unat base + unat off < 2 ^ LENGTH('a)")
    case True
    then have "unat (base + ucast off) = unat base + unat off"
      using u by (simp add: unat_plus_if')
    with inside show ?thesis by (simp add: inside_region_def)
  next
    case False
    then have "unat (base + ucast off) = unat base + unat off - 2 ^ LENGTH('a)"
      using u by (simp add: unat_plus_if')
    with lt False have "unat (base + ucast off) < unat base" by simp
    with inside show ?thesis by (simp add: inside_region_def)
  qed
qed

text \<open>
  C4, as the code has it. l4virtio_config_queues returns cfg + queues_offset and
  l4virtio_device_config returns cfg + dev_cfg_offset, in l4_addr_t arithmetic. Neither
  accessor compares the offset with the size of the region. With l4_addr_t of at least 32
  bits: if the pointer returned addresses a structure inside the region, then the offset
  plus the size of the structure is at most the region size; and if the offset plus the
  size of the (non-empty) structure is at most the region size and the region does not
  wrap around the address space, then the pointer returned addresses a structure inside
  the region.
\<close>

theorem config_pointers:
  fixes cfg_addr :: "'a::len word"
  shows "l4virtio_config_queues cfg_addr cfg = cfg_addr + ucast (queues_offset cfg)
   \<and> l4virtio_device_config cfg_addr cfg = cfg_addr + ucast (dev_cfg_offset cfg)
   \<and> (32 \<le> LENGTH('a) \<and> unat cfg_addr + region_size \<le> 2 ^ LENGTH('a) \<longrightarrow>
        (0 < qsz \<and> unat (queues_offset cfg) + qsz \<le> region_size \<longrightarrow>
           inside_region cfg_addr region_size (l4virtio_config_queues cfg_addr cfg) qsz)
      \<and> (0 < dsz \<and> unat (dev_cfg_offset cfg) + dsz \<le> region_size \<longrightarrow>
           inside_region cfg_addr region_size (l4virtio_device_config cfg_addr cfg) dsz))
   \<and> (32 \<le> LENGTH('a) \<longrightarrow>
        (inside_region cfg_addr region_size (l4virtio_config_queues cfg_addr cfg) qsz \<longrightarrow>
           unat (queues_offset cfg) + qsz \<le> region_size)
      \<and> (inside_region cfg_addr region_size (l4virtio_device_config cfg_addr cfg) dsz \<longrightarrow>
           unat (dev_cfg_offset cfg) + dsz \<le> region_size))"
proof -
  have fwd: "32 \<le> LENGTH('a) \<and> unat cfg_addr + region_size \<le> 2 ^ LENGTH('a) \<longrightarrow>
        (0 < qsz \<and> unat (queues_offset cfg) + qsz \<le> region_size \<longrightarrow>
           inside_region cfg_addr region_size (l4virtio_config_queues cfg_addr cfg) qsz)
      \<and> (0 < dsz \<and> unat (dev_cfg_offset cfg) + dsz \<le> region_size \<longrightarrow>
           inside_region cfg_addr region_size (l4virtio_device_config cfg_addr cfg) dsz)"
    by (simp add: l4virtio_config_queues_def l4virtio_device_config_def ptr_add_inside)
  have bwd: "32 \<le> LENGTH('a) \<longrightarrow>
        (inside_region cfg_addr region_size (l4virtio_config_queues cfg_addr cfg) qsz \<longrightarrow>
           unat (queues_offset cfg) + qsz \<le> region_size)
      \<and> (inside_region cfg_addr region_size (l4virtio_device_config cfg_addr cfg) dsz \<longrightarrow>
           unat (dev_cfg_offset cfg) + dsz \<le> region_size)"
    unfolding l4virtio_config_queues_def l4virtio_device_config_def
    by (blast intro: inside_needs_bound)
  from fwd bwd show ?thesis
    by (simp add: l4virtio_config_queues_def l4virtio_device_config_def)
qed

text \<open>
  The theorem at a 64-bit address space, a 4096-byte region at 0x1000, the queue array
  right behind the 108-byte header and a device config behind one 12-byte queue entry.
\<close>

theorem config_pointers_witness:
  "(32::nat) \<le> LENGTH(64) \<and> unat (0x1000 :: 64 word) + 4096 \<le> 2 ^ LENGTH(64)
   \<and> (0::nat) < 12 \<and> unat (queues_offset near_offsets_hdr) + 12 \<le> (4096::nat)
   \<and> (0::nat) < 40 \<and> unat (dev_cfg_offset near_offsets_hdr) + 40 \<le> (4096::nat)
   \<and> inside_region (0x1000 :: 64 word) 4096 (l4virtio_config_queues 0x1000 near_offsets_hdr) 12
   \<and> inside_region (0x1000 :: 64 word) 4096 (l4virtio_device_config 0x1000 near_offsets_hdr) 40"
proof -
  have a: "(32::nat) \<le> LENGTH(64) \<and> unat (0x1000 :: 64 word) + 4096 \<le> 2 ^ LENGTH(64)"
    by simp
  have b: "(0::nat) < 12 \<and> unat (queues_offset near_offsets_hdr) + 12 \<le> (4096::nat)"
    by (simp add: near_offsets_hdr_def far_offsets_hdr_def)
  have c: "(0::nat) < 40 \<and> unat (dev_cfg_offset near_offsets_hdr) + 40 \<le> (4096::nat)"
    by (simp add: near_offsets_hdr_def far_offsets_hdr_def)
  from config_pointers [of "0x1000 :: 64 word" near_offsets_hdr 4096 12 40] a b c
  show ?thesis by blast
qed

text \<open>
  C4 as stated fails: for a header in a 4096-byte region at 0x1000 whose queues_offset is
  0x2000 and whose dev_cfg_offset is 0x3000, both accessors return an address outside the
  region (0x3000 and 0x4000).
\<close>

theorem config_pointers_outside:
  "l4virtio_config_queues (0x1000 :: 64 word) far_offsets_hdr = 0x3000
   \<and> \<not> inside_region (0x1000 :: 64 word) 4096
          (l4virtio_config_queues 0x1000 far_offsets_hdr) 12
   \<and> l4virtio_device_config (0x1000 :: 64 word) far_offsets_hdr = 0x4000
   \<and> \<not> inside_region (0x1000 :: 64 word) 4096
          (l4virtio_device_config 0x1000 far_offsets_hdr) 1"
  by (simp add: inside_region_def l4virtio_config_queues_def l4virtio_device_config_def
      far_offsets_hdr_def)

section \<open>Status state machine\<close>


lemma has_bits_trans: "has_bits a b \<Longrightarrow> has_bits b c \<Longrightarrow> has_bits a c"
  unfolding has_bits_def by (metis and.assoc)

















section \<open>Queue configuration\<close>

text \<open>
  Which of its results config_queue gives is decided by the index, the entry the driver
  wrote, the registered regions and the FAILED bit, in this order of precedence.
\<close>

lemma config_queue_kinds:
  "(config_queue be d index = Inl L4_ERANGE \<longleftrightarrow> unat (num_queues (dev_cfg d)) \<le> index)
   \<and> (config_queue be d index = Inl L4_EIO \<longleftrightarrow>
        index < unat (num_queues (dev_cfg d))
        \<and> (num_max (dev_queues d index) < num (dev_queues d index)
            \<or> \<not> queue_in_registered be d (dev_queues d index)))
   \<and> (config_queue be d index = Inl L4_EINVAL \<longleftrightarrow>
        index < unat (num_queues (dev_cfg d))
        \<and> num (dev_queues d index) \<le> num_max (dev_queues d index)
        \<and> queue_in_registered be d (dev_queues d index)
        \<and> (malformed_entry be (dev_queues d index)
            \<or> has_bits (dev_status d) L4VIRTIO_STATUS_FAILED))"
  by (auto simp: config_queue_def Let_def)

section \<open>Region registration\<close>

lemma ff_mask: "(0xFF :: 'a::len word) = mask 8"
  by (simp add: mask_eq_exp_minus_1)

lemma bit_rights_mask: "bit (rights_mask ds_cap) n \<longleftrightarrow> n < 8 \<and> bit ds_cap n"
  unfolding rights_mask_def ff_mask
  by (auto simp: bit_ucast_iff bit_and_iff bit_mask_iff dest: bit_imp_le_length)

lemma bit_granted:
  "bit (granted_rights held ds_cap) n \<longleftrightarrow> bit held n \<and> bit ds_cap n"
  unfolding granted_rights_def
  by (auto simp: bit_and_iff bit_rights_mask dest: bit_imp_le_length)

lemma handle_mask:
  fixes c :: "'a::len word"
  assumes "8 \<le> LENGTH('a)"
  shows "rights_mask (push_bit 8 c OR ucast (m :: 8 word)) = m"
  by (rule bit_eqI)
    (use assms in \<open>auto simp: bit_rights_mask bit_or_iff bit_push_bit_iff bit_ucast_iff\<close>)

lemma granted_within: "has_bits held (granted_rights held ds_cap)"
  by (simp add: has_bits_def granted_rights_def)

lemma granted_no_more: "granted_rights held ds_cap AND NOT held = 0"
  by (rule bit_eqI) (auto simp: granted_rights_def bit_and_iff bit_not_iff)

lemma granted_zero_mask: "ds_cap AND 0xFF = 0 \<Longrightarrow> granted_rights held ds_cap = 0"
  by (simp add: granted_rights_def rights_mask_def)

lemma config_queue_regions:
  "config_queue be d i = Inr d' \<Longrightarrow> dev_regions d' = dev_regions d"
  by (auto simp: config_queue_def Let_def split: if_splits)

lemma write_status_regions:
  "dev_regions (write_status be d w) = dev_regions d \<or> dev_regions (write_status be d w) = []"
  by (auto simp: write_status_def set_status_def reset_device_def split: early_driver_ok.splits)

lemma register_ds_Some:
  assumes "register_ds be caps d ds_cap base offset sz = Some d'"
  shows "\<exists>held ds_size. caps (cap_selector ds_cap) = Some (held, ds_size)
          \<and> dev_regions d' = dev_regions d @
               [\<lparr>rg_ds = cap_selector ds_cap, rg_base = base, rg_size = sz,
                 rg_rights = granted_rights held ds_cap\<rparr>]"
  using assms by (auto simp: register_ds_def split: option.splits if_splits)

lemma register_ds_None:
  "register_ds be caps d ds_cap base offset sz = None
     \<Longrightarrow> do_call be caps d (Register_ds ds_cap base offset sz) = d"
  by simp

lemma do_call_within:
  assumes "rights_within_caller caps d"
  shows "rights_within_caller caps (do_call be caps d c)"
proof (cases c)
  case (Set_status w)
  with assms write_status_regions [of be d w] show ?thesis
    by (auto simp: rights_within_caller_def)
next
  case (Config_queue i)
  with assms show ?thesis
    by (auto simp: rights_within_caller_def split: sum.splits dest: config_queue_regions)
next
  case (Register_ds ds_cap base offset sz)
  show ?thesis
  proof (cases "register_ds be caps d ds_cap base offset sz")
    case None
    with assms Register_ds show ?thesis by simp
  next
    case (Some d')
    from register_ds_Some [OF this] obtain held ds_size where
      "caps (cap_selector ds_cap) = Some (held, ds_size)"
      "dev_regions d' = dev_regions d @
               [\<lparr>rg_ds = cap_selector ds_cap, rg_base = base, rg_size = sz,
                 rg_rights = granted_rights held ds_cap\<rparr>]" by blast
    with assms Some Register_ds show ?thesis
      by (simp add: rights_within_caller_def region_within_caller_def granted_within)
  qed
qed

lemma ctl_calls_within:
  "rights_within_caller caps d \<Longrightarrow> rights_within_caller caps (ctl_calls be caps d cs)"
  unfolding ctl_calls_def
  by (induction cs arbitrary: d) (simp_all add: do_call_within)

lemma access_within_caller:
  assumes "rights_within_caller caps d" and "device_may_access d addr len want"
  shows "\<exists>r held ds_size. r \<in> set (dev_regions d) \<and> within_region addr len r
           \<and> caps (rg_ds r) = Some (held, ds_size) \<and> has_bits held want"
proof -
  from assms(2) obtain r where r: "r \<in> set (dev_regions d)" "within_region addr len r"
    "has_bits (rg_rights r) want"
    by (auto simp: device_may_access_def grants_access_def list_ex_iff)
  from assms(1) r(1) have "region_within_caller caps r"
    by (simp add: rights_within_caller_def list_all_iff)
  then obtain held ds_size where h: "caps (rg_ds r) = Some (held, ds_size)"
    "has_bits held (rg_rights r)"
    by (auto simp: region_within_caller_def split: option.splits)
  from h(2) r(3) have "has_bits held want" by (rule has_bits_trans)
  with r h(1) show ?thesis by blast
qed

text \<open>
  C5. A successful register_ds looks up the data space that the bits above the lower 8
  of the capability argument name, and appends exactly one region whose rights are the
  caller's rights on that data space intersected with the lower 8 bits of the argument:
  a right is granted exactly if the caller holds it and the mask has it, so for every
  value of the mask no right is granted that the caller does not hold, and an all-zero
  mask grants none. Every 8-bit mask can be put into a handle and is applied as it is. A
  failed register_ds changes nothing. After any sequence of control-plane calls every
  registered region carries only rights the caller holds on its data space, and whatever
  the device may access with some rights, the caller holds these rights on the data space
  behind it.
\<close>

theorem register_ds_rights:
  fixes ds_cap c :: "'a::len word"
  shows "(register_ds be caps d ds_cap base offset sz = Some d' \<longrightarrow>
      (\<exists>held ds_size. caps (unat (drop_bit 8 ds_cap)) = Some (held, ds_size)
         \<and> dev_regions d' = dev_regions d @
              [\<lparr>rg_ds = unat (drop_bit 8 ds_cap), rg_base = base, rg_size = sz,
                rg_rights = held AND ucast (ds_cap AND 0xFF)\<rparr>]
         \<and> (\<forall>n. bit (rg_rights (last (dev_regions d'))) n \<longleftrightarrow> bit held n \<and> bit ds_cap n)
         \<and> rg_rights (last (dev_regions d')) AND NOT held = 0
         \<and> (ds_cap AND 0xFF = 0 \<longrightarrow> rg_rights (last (dev_regions d')) = 0)))
   \<and> (register_ds be caps d ds_cap base offset sz = None \<longrightarrow>
        do_call be caps d (Register_ds ds_cap base offset sz) = d)
   \<and> (8 \<le> LENGTH('a) \<longrightarrow>
        granted_rights held0 (push_bit 8 c OR ucast (m :: 8 word)) = held0 AND m)
   \<and> (rights_within_caller caps d \<longrightarrow>
        rights_within_caller caps (ctl_calls be caps d (cs :: 'a word ctl_call list)))
   \<and> (rights_within_caller caps d
        \<and> device_may_access (ctl_calls be caps d (cs :: 'a word ctl_call list)) addr len want \<longrightarrow>
        (\<exists>r held ds_size. r \<in> set (dev_regions (ctl_calls be caps d cs))
           \<and> within_region addr len r \<and> caps (rg_ds r) = Some (held, ds_size)
           \<and> has_bits held want))"
proof -
  have a: "register_ds be caps d ds_cap base offset sz = Some d' \<longrightarrow>
      (\<exists>held ds_size. caps (unat (drop_bit 8 ds_cap)) = Some (held, ds_size)
         \<and> dev_regions d' = dev_regions d @
              [\<lparr>rg_ds = unat (drop_bit 8 ds_cap), rg_base = base, rg_size = sz,
                rg_rights = held AND ucast (ds_cap AND 0xFF)\<rparr>]
         \<and> (\<forall>n. bit (rg_rights (last (dev_regions d'))) n \<longleftrightarrow> bit held n \<and> bit ds_cap n)
         \<and> rg_rights (last (dev_regions d')) AND NOT held = 0
         \<and> (ds_cap AND 0xFF = 0 \<longrightarrow> rg_rights (last (dev_regions d')) = 0))"
  proof
    assume "register_ds be caps d ds_cap base offset sz = Some d'"
    from register_ds_Some [OF this] obtain h ds_size where
      h: "caps (cap_selector ds_cap) = Some (h, ds_size)"
      "dev_regions d' = dev_regions d @
               [\<lparr>rg_ds = cap_selector ds_cap, rg_base = base, rg_size = sz,
                 rg_rights = granted_rights h ds_cap\<rparr>]" by blast
    then have l: "rg_rights (last (dev_regions d')) = granted_rights h ds_cap" by simp
    have "caps (unat (drop_bit 8 ds_cap)) = Some (h, ds_size)
         \<and> dev_regions d' = dev_regions d @
              [\<lparr>rg_ds = unat (drop_bit 8 ds_cap), rg_base = base, rg_size = sz,
                rg_rights = h AND ucast (ds_cap AND 0xFF)\<rparr>]
         \<and> (\<forall>n. bit (rg_rights (last (dev_regions d'))) n \<longleftrightarrow> bit h n \<and> bit ds_cap n)
         \<and> rg_rights (last (dev_regions d')) AND NOT h = 0
         \<and> (ds_cap AND 0xFF = 0 \<longrightarrow> rg_rights (last (dev_regions d')) = 0)"
      unfolding l using h
      by (simp add: bit_granted granted_no_more granted_zero_mask)
        (simp add: granted_rights_def rights_mask_def cap_selector_def)
    then show "\<exists>held ds_size. caps (unat (drop_bit 8 ds_cap)) = Some (held, ds_size)
         \<and> dev_regions d' = dev_regions d @
              [\<lparr>rg_ds = unat (drop_bit 8 ds_cap), rg_base = base, rg_size = sz,
                rg_rights = held AND ucast (ds_cap AND 0xFF)\<rparr>]
         \<and> (\<forall>n. bit (rg_rights (last (dev_regions d'))) n \<longleftrightarrow> bit held n \<and> bit ds_cap n)
         \<and> rg_rights (last (dev_regions d')) AND NOT held = 0
         \<and> (ds_cap AND 0xFF = 0 \<longrightarrow> rg_rights (last (dev_regions d')) = 0)"
      by blast
  qed
  have b: "8 \<le> LENGTH('a) \<longrightarrow>
        granted_rights held0 (push_bit 8 c OR ucast (m :: 8 word)) = held0 AND m"
    by (simp add: granted_rights_def handle_mask)
  have e: "rights_within_caller caps d
        \<and> device_may_access (ctl_calls be caps d cs) addr len want \<longrightarrow>
        (\<exists>r held ds_size. r \<in> set (dev_regions (ctl_calls be caps d cs))
           \<and> within_region addr len r \<and> caps (rg_ds r) = Some (held, ds_size)
           \<and> has_bits held want)"
    using access_within_caller [of caps "ctl_calls be caps d cs" addr len want]
      ctl_calls_within [of caps d be cs]
    by blast
  from a b e show ?thesis
    using register_ds_None [of be caps d ds_cap base offset sz]
      ctl_calls_within [of caps d be cs]
    by blast
qed

text \<open>
  The theorem at the concrete device. The handle 0x101 names data space 1 and carries the
  mask 1; 0x2ff names data space 2, on which the caller holds only the lowest right, with
  all mask bits set; 0x102 and 0x100 carry the masks 2 and 0. A backend that needs the
  lowest right refuses the mask 0, and no backend knows data space 3. A window that
  overlaps a registered region or exceeds its data space is refused. Through the region
  registered with the right 1 the device gets no access with the right 2 and none outside
  the window.
\<close>

theorem register_ds_rights_witness:
  "register_ds demo_backend demo_caps demo_device (0x101 :: 64 word) 0x200000 0 0x1000
     = Some granted_device
   \<and> register_ds demo_backend demo_caps demo_device (0x2ff :: 64 word) 0x300000 0 0x1000
     = Some full_mask_device
   \<and> register_ds lenient_backend demo_caps demo_device (0x102 :: 64 word) 0x200000 0 0x1000
     = Some mask2_device
   \<and> register_ds lenient_backend demo_caps demo_device (0x100 :: 64 word) 0x200000 0 0x1000
     = Some zero_mask_device
   \<and> (0x100 :: 64 word) AND 0xFF = 0
   \<and> register_ds demo_backend demo_caps demo_device (0x100 :: 64 word) 0x200000 0 0x1000 = None
   \<and> register_ds demo_backend demo_caps demo_device (0x301 :: 64 word) 0x200000 0 0x1000 = None
   \<and> register_ds demo_backend demo_caps demo_device (0x1ff :: 64 word) 0x10f000 0 0x2000 = None
   \<and> register_ds demo_backend demo_caps demo_device (0x2ff :: 64 word) 0x300000 0 0x2000 = None
   \<and> \<not> device_may_access granted_device 0x200000 16 2
   \<and> \<not> device_may_access granted_device 0x1ff000 0x1000 1
   \<and> \<not> device_may_access granted_device 0x200ff8 16 1
   \<and> (8 :: nat) \<le> LENGTH(64)
   \<and> rights_within_caller demo_caps demo_device
   \<and> device_may_access
        (ctl_calls demo_backend demo_caps demo_device
           [Register_ds (0x101 :: 64 word) 0x200000 0 0x1000]) 0x200000 16 1
   \<and> rg_rights (last (dev_regions granted_device)) = 1
   \<and> rg_rights (last (dev_regions full_mask_device)) = 1
   \<and> rg_rights (last (dev_regions mask2_device)) = 2
   \<and> rg_rights (last (dev_regions zero_mask_device)) = 0
   \<and> do_call demo_backend demo_caps demo_device (Register_ds (0x100 :: 64 word) 0x200000 0 0x1000)
       = demo_device
   \<and> granted_rights 3 (push_bit 8 1 OR ucast (2 :: 8 word) :: 64 word) = 3 AND 2
   \<and> rights_within_caller demo_caps
       (ctl_calls demo_backend demo_caps demo_device
          [Register_ds (0x101 :: 64 word) 0x200000 0 0x1000, Config_queue 0, Set_status 1])
   \<and> (\<exists>r held ds_size.
         r \<in> set (dev_regions (ctl_calls demo_backend demo_caps demo_device
                                 [Register_ds (0x101 :: 64 word) 0x200000 0 0x1000]))
         \<and> within_region 0x200000 16 r \<and> demo_caps (rg_ds r) = Some (held, ds_size)
         \<and> has_bits held 1)"
proof -
  note defs = register_ds_def demo_caps_def cap_selector_def granted_rights_def
    rights_mask_def has_bits_def demo_backend_def lenient_backend_def demo_device_def
    ranges_overlap_def drop_bit_eq_div
  have a1: "register_ds demo_backend demo_caps demo_device (0x101 :: 64 word) 0x200000 0 0x1000
     = Some granted_device"
    by (simp add: defs granted_device_def)
  have a2: "register_ds demo_backend demo_caps demo_device (0x2ff :: 64 word) 0x300000 0 0x1000
     = Some full_mask_device"
    by (simp add: defs full_mask_device_def)
  have a3: "register_ds lenient_backend demo_caps demo_device (0x102 :: 64 word) 0x200000 0 0x1000
     = Some mask2_device"
    by (simp add: defs mask2_device_def)
  have a4: "register_ds lenient_backend demo_caps demo_device (0x100 :: 64 word) 0x200000 0 0x1000
     = Some zero_mask_device"
    by (simp add: defs zero_mask_device_def)
  have z: "(0x100 :: 64 word) AND 0xFF = 0" by simp
  have n1: "register_ds demo_backend demo_caps demo_device (0x100 :: 64 word) 0x200000 0 0x1000
     = None"
    by (simp add: defs)
  have n2: "register_ds demo_backend demo_caps demo_device (0x301 :: 64 word) 0x200000 0 0x1000
     = None"
    by (simp add: defs)
  have n3: "register_ds demo_backend demo_caps demo_device (0x1ff :: 64 word) 0x10f000 0 0x2000
     = None"
    by (simp add: defs)
  have n4: "register_ds demo_backend demo_caps demo_device (0x2ff :: 64 word) 0x300000 0 0x2000
     = None"
    by (simp add: defs)
  have d1: "\<not> device_may_access granted_device 0x200000 16 2"
    and d2: "\<not> device_may_access granted_device 0x1ff000 0x1000 1"
    and d3: "\<not> device_may_access granted_device 0x200ff8 16 1"
    by (simp_all add: device_may_access_def grants_access_def within_region_def has_bits_def
        granted_device_def demo_device_def)
  have l: "(8 :: nat) \<le> LENGTH(64)" by simp
  have b: "rights_within_caller demo_caps demo_device"
    by (simp add: rights_within_caller_def region_within_caller_def demo_caps_def
        demo_device_def has_bits_def)
  have run: "ctl_calls demo_backend demo_caps demo_device
           [Register_ds (0x101 :: 64 word) 0x200000 0 0x1000] = granted_device"
    using a1 by (simp add: ctl_calls_def)
  have acc: "device_may_access
        (ctl_calls demo_backend demo_caps demo_device
           [Register_ds (0x101 :: 64 word) 0x200000 0 0x1000]) 0x200000 16 1"
    unfolding run
    by (simp add: device_may_access_def grants_access_def within_region_def has_bits_def
        granted_device_def demo_device_def)
  have r: "rg_rights (last (dev_regions granted_device)) = 1"
    "rg_rights (last (dev_regions full_mask_device)) = 1"
    "rg_rights (last (dev_regions mask2_device)) = 2"
    by (simp_all add: granted_device_def full_mask_device_def mask2_device_def)
  have g: "(3 :: 8 word) AND 2 = 2" by simp
  from register_ds_rights [of demo_backend demo_caps demo_device "0x101 :: 64 word"
      "0x200000" 0 "0x1000" granted_device 3 1 2
      "[Register_ds (0x101 :: 64 word) 0x200000 0 0x1000, Config_queue 0, Set_status 1]"
      0 0 0]
    register_ds_rights [of lenient_backend demo_caps demo_device "0x100 :: 64 word"
      "0x200000" 0 "0x1000" zero_mask_device 3 1 2 "[]" 0 0 0]
    register_ds_rights [of demo_backend demo_caps demo_device "0x100 :: 64 word"
      "0x200000" 0 "0x1000" demo_device 3 1 2
      "[Register_ds (0x101 :: 64 word) 0x200000 0 0x1000]" "0x200000" 16 1]
    a1 a2 a3 a4 z n1 n2 n3 n4 d1 d2 d3 l b acc r
  show ?thesis by blast
qed

section \<open>Descriptor chains\<close>

lemma length_link_chain: "length (link_chain xs) = length xs"
  by (induction xs rule: link_chain.induct) simp_all

lemma length_fold_store: "length (fold store_desc sds tbl) = length tbl"
  by (induction sds arbitrary: tbl) (simp_all add: store_desc_def)

lemma fold_store_untouched:
  "s \<notin> fst ` set sds \<Longrightarrow> fold store_desc sds tbl ! s = tbl ! s"
  by (induction sds arbitrary: tbl) (auto simp: store_desc_def)

lemma fold_store_written:
  assumes "distinct (map fst sds)" and "\<forall>s \<in> fst ` set sds. s < length tbl"
    and "(s, d) \<in> set sds"
  shows "fold store_desc sds tbl ! s = d"
  using assms
proof (induction sds arbitrary: tbl)
  case Nil
  then show ?case by simp
next
  case (Cons sd sds)
  show ?case
  proof (cases "(s, d) = sd")
    case True
    with Cons.prems have "s \<notin> fst ` set sds" and "s < length tbl" by force+
    then have "fold store_desc sds (store_desc sd tbl) ! s = store_desc sd tbl ! s"
      by (simp add: fold_store_untouched)
    also have "\<dots> = d" using True \<open>s < length tbl\<close> by (auto simp: store_desc_def)
    finally show ?thesis by simp
  next
    case False
    with Cons.prems have "(s, d) \<in> set sds" "distinct (map fst sds)"
      "\<forall>s \<in> fst ` set sds. s < length (store_desc sd tbl)"
      by (auto simp: store_desc_def)
    with Cons.IH [of "store_desc sd tbl"] show ?thesis by simp
  qed
qed

lemma follow_written:
  assumes "xs \<noteq> []" and "length xs \<le> k"
    and "\<forall>(s, d) \<in> set (zip (map fst xs) (link_chain xs)). s < length tbl \<and> tbl ! s = d"
  shows "follow_chain tbl k (fst (hd xs)) = Inr (link_chain xs)"
  using assms
proof (induction xs arbitrary: k rule: link_chain.induct)
  case 1
  then show ?case by simp
next
  case (2 s b)
  then obtain k' where "k = Suc k'" by (cases k) auto
  with 2 show ?case by (simp add: mk_desc_def)
next
  case (3 s b s' b' rest)
  then obtain k' where k: "k = Suc k'" by (cases k) auto
  from "3.prems" have here: "s < length tbl" "tbl ! s = mk_desc b True s'" by auto
  have "follow_chain tbl k' (fst (hd ((s', b') # rest))) = Inr (link_chain ((s', b') # rest))"
    using "3.prems" k by (intro "3.IH") auto
  with here k show ?case by (simp add: mk_desc_def)
qed

lemma map_desc_buffer_link: "map desc_buffer (link_chain xs) = map snd xs"
  by (induction xs rule: link_chain.induct) (simp_all add: desc_buffer_def mk_desc_def)

lemma sum_len_link: "sum_list (map d_len (link_chain xs)) = sum_list (map (b_len \<circ> snd) xs)"
  by (induction xs rule: link_chain.induct) (simp_all add: mk_desc_def)

lemma follow_write_chain:
  assumes "slots \<noteq> []" and "distinct slots" and "\<forall>s \<in> set slots. s < length tbl"
    and "length bufs = length slots"
  shows "follow_chain (write_chain tbl slots bufs) (length tbl) (hd slots)
           = Inr (link_chain (zip slots bufs))"
proof -
  let ?xs = "zip slots bufs"
  let ?sds = "zip slots (link_chain ?xs)"
  let ?tbl = "write_chain tbl slots bufs"
  have fst_xs: "map fst ?xs = slots" using assms(4) by simp
  have len: "length (link_chain ?xs) = length slots"
    using assms(4) by (simp add: length_link_chain)
  have fst_sds: "map fst ?sds = slots" using len by simp
  have ne: "?xs \<noteq> []" using assms(1,4) by (cases slots; cases bufs) auto
  have hd: "fst (hd ?xs) = hd slots" using assms(1,4) by (cases slots; cases bufs) auto
  have ltbl: "length ?tbl = length tbl" by (simp add: write_chain_def length_fold_store)
  have "length slots \<le> length tbl"
    using assms(2,3) distinct_card [of slots] card_mono [of "{..<length tbl}" "set slots"]
    by auto
  then have k: "length ?xs \<le> length tbl" using assms(4) by simp
  have written: "\<forall>(s, d) \<in> set (zip (map fst ?xs) (link_chain ?xs)).
      s < length ?tbl \<and> ?tbl ! s = d"
  proof (clarify)
    fix s d assume sd: "(s, d) \<in> set (zip (map fst ?xs) (link_chain ?xs))"
    then have mem: "(s, d) \<in> set ?sds" using fst_xs by simp
    then have "s \<in> set slots" by (auto dest: set_zip_leftD)
    then have "s < length tbl" using assms(3) by blast
    moreover have "fold store_desc ?sds tbl ! s = d"
    proof (rule fold_store_written)
      show "distinct (map fst ?sds)" using fst_sds assms(2) by simp
      show "\<forall>s \<in> fst ` set ?sds. s < length tbl"
        using assms(3) by (auto dest: set_zip_leftD)
      show "(s, d) \<in> set ?sds" by (rule mem)
    qed
    ultimately show "s < length ?tbl \<and> ?tbl ! s = d"
      using ltbl by (simp add: write_chain_def)
  qed
  from follow_written [OF ne k written] hd show ?thesis by simp
qed


text \<open>
  C9, as the consumer has it. A chain that the producer writes into distinct slots of the
  descriptor table (so it has no cycle and no out-of-range next index, and ends at the
  descriptor without the chained flag) and whose lengths do not add up to zero is
  reconstructed by the consumer's walk exactly: the same descriptors in chain order, with
  the address, length and flags of the producer's buffers.
\<close>

theorem chain_round_trip:
  assumes "slots \<noteq> []" and "distinct slots" and "\<forall>s \<in> set slots. s < length tbl"
    and "length bufs = length slots" and "sum_list (map b_len bufs) \<noteq> 0"
  shows "walk_chain (write_chain tbl slots bufs) (hd slots) = Inr (link_chain (zip slots bufs))
    \<and> map desc_buffer (link_chain (zip slots bufs)) = bufs
    \<and> length (link_chain (zip slots bufs)) = length bufs"
proof -
  have f: "follow_chain (write_chain tbl slots bufs) (length tbl) (hd slots)
           = Inr (link_chain (zip slots bufs))"
    using assms(1-4) by (rule follow_write_chain)
  have l: "length (write_chain tbl slots bufs) = length tbl"
    by (simp add: write_chain_def length_fold_store)
  have m: "map snd (zip slots bufs) = bufs" using assms(4) by simp
  have "sum_list (map d_len (link_chain (zip slots bufs))) = sum_list (map b_len bufs)"
    using m by (simp add: sum_len_link flip: map_map)
  with f l assms(5) have "walk_chain (write_chain tbl slots bufs) (hd slots)
      = Inr (link_chain (zip slots bufs))"
    by (simp add: walk_chain_def)
  then show ?thesis using m assms(4) by (simp add: map_desc_buffer_link length_link_chain)
qed

text \<open>
  The theorem at a request of two buffers written into slots 2 and 0 of a table of four.
\<close>

theorem chain_round_trip_witness:
  "[2, 0 :: nat] \<noteq> [] \<and> distinct [2, 0 :: nat]
   \<and> (2 :: nat) < length (replicate 4 null_desc) \<and> (0 :: nat) < length (replicate 4 null_desc)
   \<and> length [request_hdr, request_data] = length [2, 0 :: nat]
   \<and> sum_list (map b_len [request_hdr, request_data]) \<noteq> 0
   \<and> walk_chain (write_chain (replicate 4 null_desc) [2, 0] [request_hdr, request_data]) (hd [2, 0])
       = Inr (link_chain (zip [2, 0] [request_hdr, request_data]))
   \<and> map desc_buffer (link_chain (zip [2, 0] [request_hdr, request_data]))
       = [request_hdr, request_data]"
proof -
  have a: "[2, 0 :: nat] \<noteq> []" and b: "distinct [2, 0 :: nat]"
    and c: "\<forall>s \<in> set [2, 0 :: nat]. s < length (replicate 4 null_desc)"
    and d: "length [request_hdr, request_data] = length [2, 0 :: nat]"
    and e: "sum_list (map b_len [request_hdr, request_data]) \<noteq> 0"
    by (simp_all add: request_hdr_def request_data_def)
  have c': "(2 :: nat) < length (replicate 4 null_desc) \<and> (0 :: nat) < length (replicate 4 null_desc)"
    by simp
  from chain_round_trip [OF a b c d e] a b c' d e show ?thesis by blast
qed

text \<open>
  C9 as stated fails: the single descriptor with address 0x1000, length 0 and no flag is a
  valid chain (following it from slot 0 ends without error), and the consumer's walk
  rejects it for its zero total length instead of reconstructing it.
\<close>

theorem zero_length_chain_rejected:
  "follow_chain (write_chain (replicate 4 null_desc) [0] [zero_len_buffer]) 4 0
     = Inr (link_chain (zip [0] [zero_len_buffer]))
   \<and> walk_chain (write_chain (replicate 4 null_desc) [0] [zero_len_buffer]) 0
       = Inl Chain_zero_length
   \<and> walk_chain (write_chain (replicate 4 null_desc) [0] [zero_len_buffer]) 0
       \<noteq> Inr (link_chain (zip [0] [zero_len_buffer]))"
  by (simp add: walk_chain_def write_chain_def store_desc_def mk_desc_def zero_len_buffer_def
      null_desc_def eval_nat_numeral)

section \<open>Ring capacity\<close>









end
